theory Spec2Isabelle
  imports Main "HOL-Library.Word"
begin

section \<open>The model registry: \<open>model_loader.py\<close>\<close>

text \<open>
  The element type \<open>'f\<close> stands for Python's \<open>float\<close>. The service never computes with
  a feature or with a model's output: it only passes them on, so the type is a parameter
  of every definition. The closed examples below instantiate it with \<open>64 word\<close>, the
  bit pattern of an IEEE double.

  A loaded model is an arbitrary Python object (\<open>Optional[Any]\<close>). The loader only asks
  whether it has the attributes \<open>predict\<close> and \<open>predict_proba\<close> (\<open>hasattr\<close>) and calls
  them. So an object is the pair of those two attributes: \<open>None\<close> when the attribute is
  absent, otherwise the function from the feature vector to the outcome of the call.
  The outcome of \<open>predict_attr\<close> is that of \<open>float(model.predict(X)[0])\<close>, the outcome
  of \<open>predict_proba_attr\<close> that of \<open>float(np.max(model.predict_proba(X)[0]))\<close>, each
  \<open>None\<close> when any step of it raises.
\<close>

record 'f py_model =
  predict_attr :: "('f list \<Rightarrow> 'f option) option"
  predict_proba_attr :: "('f list \<Rightarrow> 'f option) option"

text \<open>
  An object of class \<open>ModelLoader\<close>, seen through attribute lookup: \<open>model_attr\<close> is
  \<open>self._model\<close> (\<open>None\<close> is Python's \<open>None\<close>) and \<open>model_version_attr\<close> is
  \<open>self._model_version\<close>. An object that has not assigned an attribute reads the
  class attribute, \<open>_model = None\<close> and \<open>_model_version = "v1.0.0"\<close>; no method rebinds
  the class attributes, so a fresh object is \<open>fresh_loader\<close>.
\<close>

record 'f ModelLoader =
  model_attr :: "'f py_model option"
  model_version_attr :: string

definition fresh_loader :: "'f ModelLoader" where
  "fresh_loader = \<lparr>model_attr = None, model_version_attr = ''v1.0.0''\<rparr>"

text \<open>
  What \<open>load_sklearn_model\<close> finds at a path: no file (\<open>model_path.exists()\<close> is false),
  a file for which \<open>open\<close> or \<open>pickle.load\<close> raises, or a file that unpickles to an
  object (which may be \<open>None\<close>). The file system is the function from paths to these.
\<close>

datatype 'f artifact = NotFound | Corrupt | Pickled "'f py_model option"

definition load_sklearn_model ::
  "(string \<Rightarrow> 'f artifact) \<Rightarrow> 'f ModelLoader \<Rightarrow> string \<Rightarrow> bool \<times> 'f ModelLoader" where
  "load_sklearn_model fs self model_path =
     (case fs model_path of
        NotFound \<Rightarrow> (False, self)
      | Corrupt \<Rightarrow> (False, self)
      | Pickled obj \<Rightarrow> (True, self\<lparr>model_attr := obj\<rparr>))"



text \<open>
  \<open>create_demo_model\<close>: the classifier that scikit-learn trains on the iris data is the
  parameter \<open>trained\<close>, \<open>None\<close> when the import or the training raises.
\<close>

definition create_demo_model :: "'f py_model option \<Rightarrow> 'f ModelLoader \<Rightarrow> bool \<times> 'f ModelLoader" where
  "create_demo_model trained self =
     (case trained of
        None \<Rightarrow> (False, self)
      | Some model \<Rightarrow> (True, self\<lparr>model_attr := Some model, model_version_attr := ''demo''\<rparr>))"

text \<open>The dictionary that \<open>ModelLoader.predict\<close> returns.\<close>

record 'f predict_result =
  res_prediction :: 'f
  res_probability :: "'f option"
  res_model_version :: string

definition ModelLoader_predict :: "'f ModelLoader \<Rightarrow> 'f list \<Rightarrow> 'f predict_result option" where
  "ModelLoader_predict self features =
     (case model_attr self of
        None \<Rightarrow> None
      | Some m \<Rightarrow>
          (case predict_attr m of
             None \<Rightarrow> None
           | Some call_predict \<Rightarrow>
               (case call_predict features of
                  None \<Rightarrow> None
                | Some prediction \<Rightarrow>
                    (case predict_proba_attr m of
                       None \<Rightarrow>
                         Some \<lparr>res_prediction = prediction, res_probability = None,
                               res_model_version = model_version_attr self\<rparr>
                     | Some call_proba \<Rightarrow>
                         (case call_proba features of
                            None \<Rightarrow> None
                          | Some p \<Rightarrow>
                              Some \<lparr>res_prediction = prediction, res_probability = Some p,
                                    res_model_version = model_version_attr self\<rparr>)))))"

definition is_loaded :: "'f ModelLoader \<Rightarrow> bool" where
  "is_loaded self = (model_attr self \<noteq> None)"

definition get_model_version :: "'f ModelLoader \<Rightarrow> string" where
  "get_model_version self = model_version_attr self"

definition set_model_version :: "'f ModelLoader \<Rightarrow> string \<Rightarrow> 'f ModelLoader" where
  "set_model_version self version = self\<lparr>model_version_attr := version\<rparr>"









text \<open>
  The specification's \<open>version()\<close>, written from its words: the current handle's version
  tag, or absent if the registry is not ready.
\<close>

definition version_spec :: "'f ModelLoader \<Rightarrow> string option" where
  "version_spec self = (if is_loaded self then Some (model_version_attr self) else None)"


section \<open>The schemas: \<open>schemas.py\<close>\<close>

text \<open>
  The validator of the field \<open>features\<close>; \<open>Inl msg\<close> is \<open>raise ValueError(msg)\<close>.
  \<open>not v\<close> holds of the empty list only.
\<close>

definition validate_features :: "'f list \<Rightarrow> string + 'f list" where
  "validate_features v =
     (if v = [] then Inl ''Features list cannot be empty''
      else if length v \<noteq> 4 then Inl ''Expected exactly 4 features''
      else Inr v)"

record 'f PredictionRequest =
  features :: "'f list"
  model_version :: "string option"

record 'f PredictionResponse =
  prediction :: 'f
  probability :: "'f option"
  response_model_version :: string
  input_features :: "'f list"

record HealthCheckResponse =
  status :: string
  model_loaded :: bool
  health_model_version :: "string option"

section \<open>The application: \<open>main.py\<close>\<close>

text \<open>
  Exceptions as values: \<open>ValueError(msg)\<close>, \<open>HTTPException(status_code, detail)\<close>, the
  framework's \<open>RequestValidationError\<close> with its list of messages, and any other
  exception.
\<close>

datatype exn =
  ValueError string
  | HTTPException nat string
  | RequestValidationError "string list"
  | OtherException string

text \<open>
  The JSON content of a response: a prediction, a health report, the envelope
  \<open>{"detail", "error_code"}\<close> of the two exception handlers, the \<open>{"detail"}\<close> of an
  \<open>HTTPException\<close>, the list of failures of a rejected request, and the descriptor of
  \<open>GET /\<close>.
\<close>

datatype 'f content =
  PredictionJSON "'f PredictionResponse"
  | HealthJSON HealthCheckResponse
  | ErrorJSON string string
  | DetailJSON string
  | ValidationJSON "string list"
  | RootJSON

record 'f response =
  status_code :: nat
  content :: "'f content"
  headers :: "string \<rightharpoonup> string"

definition json_response :: "nat \<Rightarrow> 'f content \<Rightarrow> 'f response" where
  "json_response code c = \<lparr>status_code = code, content = c, headers = Map.empty\<rparr>"

text \<open>
  The body of \<open>POST /predict\<close> once the framework has read the JSON and coerced the
  field types: the numbers of \<open>features\<close>, and \<open>model_version\<close>, \<open>None\<close> when the body
  has no such member.
\<close>

record 'f predict_body =
  body_features :: "'f list"
  body_model_version :: "string option option"

datatype 'f target = GET_health | POST_predict "'f predict_body" | GET_root

record 'f request =
  req_headers :: "string \<rightharpoonup> string"
  req_target :: "'f target"

definition health_check :: "'f ModelLoader \<Rightarrow> HealthCheckResponse" where
  "health_check model_loader =
     \<lparr>status = (if is_loaded model_loader then ''healthy'' else ''degraded''),
      model_loaded = is_loaded model_loader,
      health_model_version =
        (if is_loaded model_loader then Some (get_model_version model_loader) else None)\<rparr>"

definition predict :: "'f ModelLoader \<Rightarrow> 'f PredictionRequest \<Rightarrow> exn + 'f PredictionResponse" where
  "predict model_loader request =
     (if \<not> is_loaded model_loader
      then Inl (HTTPException 503 ''Model is not loaded. Please check health endpoint.'')
      else
        (case ModelLoader_predict model_loader (features request) of
           None \<Rightarrow> Inl (HTTPException 500 ''Error during prediction. Check logs for details.'')
         | Some result \<Rightarrow>
             Inr \<lparr>prediction = res_prediction result,
                  probability = res_probability result,
                  response_model_version = res_model_version result,
                  input_features = features request\<rparr>))"

definition value_error_handler :: "string \<Rightarrow> 'f response" where
  "value_error_handler exc = json_response 400 (ErrorJSON exc ''VALIDATION_ERROR'')"

definition general_exception_handler :: "exn \<Rightarrow> 'f response" where
  "general_exception_handler exc =
     json_response 500 (ErrorJSON ''Internal server error. Check logs for details.'' ''INTERNAL_ERROR'')"

text \<open>
  Modelled from the spec: the request-parsing layer of the web framework, which is not
  under \<open>src/\<close>. It builds the \<open>PredictionRequest\<close> before the endpoint is called, runs the
  field validator while doing so, and turns a \<open>ValueError\<close> of the validator into a
  schema-level failure (section 4.4: status 422, the raw list of failures). A body
  without \<open>model_version\<close> gets the field's default \<open>"latest"\<close>.
\<close>

definition parse_PredictionRequest :: "'f predict_body \<Rightarrow> exn + 'f PredictionRequest" where
  "parse_PredictionRequest body =
     (case validate_features (body_features body) of
        Inl msg \<Rightarrow> Inl (RequestValidationError [msg])
      | Inr v \<Rightarrow>
          Inr \<lparr>features = v,
               model_version =
                 (case body_model_version body of None \<Rightarrow> Some ''latest'' | Some mv \<Rightarrow> mv)\<rparr>)"

text \<open>
  The route \<open>POST /predict\<close>, for any endpoint function: the request is parsed, then the
  endpoint is called on the parsed request, and its return value is sent with the
  route's \<open>status_code=200\<close>.
\<close>

definition predict_route ::
  "('f PredictionRequest \<Rightarrow> exn + 'f PredictionResponse) \<Rightarrow> 'f predict_body \<Rightarrow> exn + 'f response" where
  "predict_route endpoint body =
     (case parse_PredictionRequest body of
        Inl e \<Rightarrow> Inl e
      | Inr request \<Rightarrow>
          (case endpoint request of
             Inl e \<Rightarrow> Inl e
           | Inr r \<Rightarrow> Inr (json_response 200 (PredictionJSON r))))"

definition router :: "'f ModelLoader \<Rightarrow> 'f request \<Rightarrow> exn + 'f response" where
  "router model_loader request =
     (case req_target request of
        GET_health \<Rightarrow> Inr (json_response 200 (HealthJSON (health_check model_loader)))
      | POST_predict body \<Rightarrow> predict_route (predict model_loader) body
      | GET_root \<Rightarrow> Inr (json_response 200 RootJSON))"

text \<open>
  Modelled from the spec: the framework's exception layer around the router, not under
  \<open>src/\<close>. An \<open>HTTPException\<close> becomes a response with its status code and detail, a
  request validation failure becomes 422, a \<open>ValueError\<close> goes to the registered
  \<open>value_error_handler\<close>; any other exception passes through, to the handler registered
  for \<open>Exception\<close>, which runs outside the middleware.
\<close>

definition exception_layer :: "exn + 'f response \<Rightarrow> exn + 'f response" where
  "exception_layer outcome =
     (case outcome of
        Inr r \<Rightarrow> Inr r
      | Inl (HTTPException code d) \<Rightarrow> Inr (json_response code (DetailJSON d))
      | Inl (RequestValidationError errs) \<Rightarrow> Inr (json_response 422 (ValidationJSON errs))
      | Inl (ValueError msg) \<Rightarrow> Inr (value_error_handler msg)
      | Inl (OtherException msg) \<Rightarrow> Inl (OtherException msg))"

text \<open>
  The middleware. \<open>process_time\<close> is the string \<open>str(process_time)\<close> that the two clock
  readings give; the clock is outside the model. Header names are taken as the source
  spells them. Nothing is attached when \<open>call_next\<close> raises: the exception is raised
  again.
\<close>

definition log_requests ::
  "'f request \<Rightarrow> string \<Rightarrow> ('f request \<Rightarrow> exn + 'f response) \<Rightarrow> exn + 'f response" where
  "log_requests request process_time call_next =
     (let request_id = (case req_headers request ''X-Request-ID'' of
                          None \<Rightarrow> ''unknown'' | Some v \<Rightarrow> v)
      in case call_next request of
           Inr response \<Rightarrow>
             Inr (response\<lparr>headers :=
                    (headers response)(''X-Process-Time'' \<mapsto> process_time,
                                       ''X-Request-ID'' \<mapsto> request_id)\<rparr>)
         | Inl e \<Rightarrow> Inl e)"

definition app :: "'f ModelLoader \<Rightarrow> string \<Rightarrow> 'f request \<Rightarrow> 'f response" where
  "app model_loader process_time request =
     (case log_requests request process_time (\<lambda>r. exception_layer (router model_loader r)) of
        Inr response \<Rightarrow> response
      | Inl e \<Rightarrow> general_exception_handler e)"

section \<open>Example inputs\<close>

text \<open>
  A classifier with both capabilities (class 0 with probability 1.0), a regressor-like
  object with \<open>predict\<close> only, and an object with neither, as a PyTorch module is.
\<close>

definition example_classifier :: "64 word py_model" where
  "example_classifier =
     \<lparr>predict_attr = Some (\<lambda>xs. Some 0),
      predict_proba_attr = Some (\<lambda>xs. Some 0x3FF0000000000000)\<rparr>"



definition example_fs :: "string \<Rightarrow> 64 word artifact" where
  "example_fs p =
     (if p = ''model.pkl'' then Pickled (Some example_classifier)
      else if p = ''broken.pkl'' then Corrupt
      else NotFound)"

text \<open>The vector \<open>[5.1, 3.5, 1.4, 0.2]\<close> of the tests, as IEEE doubles.\<close>

definition valid_features :: "64 word list" where
  "valid_features =
     [0x4014666666666666, 0x400C000000000000, 0x3FF6666666666666, 0x3FC999999999999A]"

definition demo_loader :: "64 word ModelLoader" where
  "demo_loader = snd (create_demo_model (Some example_classifier) fresh_loader)"


section \<open>Theorems\<close>

text \<open>
  C10. \<open>load_sklearn_model\<close> never changes the version tag, even on success: afterwards
  \<open>get_model_version\<close> returns the tag that was set before, which is \<open>"v1.0.0"\<close> on a
  loader that nothing has tagged; and a load that fails, because the path is missing or
  the file does not unpickle, also leaves the model reference unchanged.
\<close>

theorem load_sklearn_model_frame:
  "get_model_version (snd (load_sklearn_model fs self p)) = get_model_version self
   \<and> get_model_version (snd (load_sklearn_model fs fresh_loader p)) = ''v1.0.0''
   \<and> (fs p = NotFound \<or> fs p = Corrupt \<longrightarrow>
        load_sklearn_model fs self p = (False, self))
   \<and> (\<not> fst (load_sklearn_model fs self p) \<longrightarrow>
        model_attr (snd (load_sklearn_model fs self p)) = model_attr self)"
  by (cases "fs p")
     (simp_all add: load_sklearn_model_def get_model_version_def fresh_loader_def)

theorem load_sklearn_model_frame_witness:
  "(example_fs ''broken.pkl'' = Corrupt \<or> example_fs ''missing.pkl'' = NotFound)
   \<and> \<not> fst (load_sklearn_model example_fs demo_loader ''broken.pkl'')
   \<and> load_sklearn_model example_fs demo_loader ''broken.pkl'' = (False, demo_loader)
   \<and> model_attr (snd (load_sklearn_model example_fs demo_loader ''broken.pkl'')) = Some example_classifier
   \<and> get_model_version (snd (load_sklearn_model example_fs demo_loader ''broken.pkl'')) = ''demo''
   \<and> get_model_version (snd (load_sklearn_model example_fs fresh_loader ''model.pkl'')) = ''v1.0.0''
   \<and> fst (load_sklearn_model example_fs fresh_loader ''model.pkl'')"
  using load_sklearn_model_frame [of example_fs demo_loader "''broken.pkl''"]
    load_sklearn_model_frame [of example_fs fresh_loader "''model.pkl''"]
  by (simp add: example_fs_def demo_loader_def create_demo_model_def get_model_version_def
      load_sklearn_model_def fresh_loader_def)



text \<open>
  C2. For every feature vector of four numbers, when the registry has no active model
  (\<open>is_loaded\<close> is false), \<open>POST /predict\<close> answers 503, so neither 500 nor 200.
\<close>

theorem predict_unloaded_503:
  assumes "length xs = 4" and "\<not> is_loaded model_loader"
  shows "status_code (app model_loader t
           \<lparr>req_headers = h, req_target = POST_predict \<lparr>body_features = xs, body_model_version = mv\<rparr>\<rparr>) = 503"
  using assms
  by (auto simp add: app_def log_requests_def exception_layer_def router_def predict_route_def
      parse_PredictionRequest_def validate_features_def json_response_def predict_def)

theorem predict_unloaded_503_witness:
  "length valid_features = 4 \<and> \<not> is_loaded (fresh_loader :: 64 word ModelLoader)
   \<and> status_code (app fresh_loader ''0.001''
        \<lparr>req_headers = Map.empty,
         req_target = POST_predict \<lparr>body_features = valid_features, body_model_version = None\<rparr>\<rparr>) = 503"
  using predict_unloaded_503 [of valid_features fresh_loader "''0.001''" Map.empty None]
  by (simp add: valid_features_def fresh_loader_def is_loaded_def)



text \<open>
  C4. \<open>GET /health\<close> always answers 200. Its body has \<open>model_loaded\<close> true and \<open>status\<close>
  \<open>"healthy"\<close> if and only if the registry has an active model; otherwise \<open>model_loaded\<close>
  is false, \<open>status\<close> is \<open>"degraded"\<close> and \<open>model_version\<close> is absent.
\<close>

theorem health_check_always_200:
  "status_code (app model_loader t \<lparr>req_headers = h, req_target = GET_health\<rparr>) = 200
   \<and> (\<exists>body. content (app model_loader t \<lparr>req_headers = h, req_target = GET_health\<rparr>) = HealthJSON body
        \<and> (model_loaded body \<and> status body = ''healthy'' \<longleftrightarrow> is_loaded model_loader)
        \<and> (\<not> is_loaded model_loader \<longrightarrow>
             \<not> model_loaded body \<and> status body = ''degraded'' \<and> health_model_version body = None))"
  by (simp add: app_def log_requests_def exception_layer_def router_def json_response_def
      health_check_def)

theorem health_check_always_200_witness:
  "\<not> is_loaded (fresh_loader :: 64 word ModelLoader)
   \<and> status_code (app (fresh_loader :: 64 word ModelLoader) ''0.001''
        \<lparr>req_headers = Map.empty, req_target = GET_health\<rparr>) = 200
   \<and> content (app (fresh_loader :: 64 word ModelLoader) ''0.001''
        \<lparr>req_headers = Map.empty, req_target = GET_health\<rparr>)
       = HealthJSON \<lparr>status = ''degraded'', model_loaded = False, health_model_version = None\<rparr>
   \<and> is_loaded demo_loader
   \<and> content (app demo_loader ''0.001'' \<lparr>req_headers = Map.empty, req_target = GET_health\<rparr>)
       = HealthJSON \<lparr>status = ''healthy'', model_loaded = True, health_model_version = Some ''demo''\<rparr>"
  using health_check_always_200 [of "fresh_loader :: 64 word ModelLoader" "''0.001''" Map.empty]
    health_check_always_200 [of demo_loader "''0.001''" Map.empty]
  by (simp add: app_def log_requests_def exception_layer_def router_def json_response_def
      health_check_def is_loaded_def fresh_loader_def demo_loader_def create_demo_model_def
      get_model_version_def)




text \<open>
  C6, as the specification states it, fails: the empty list is answered with 422 and
  the list of validation failures, not with 400 and the \<open>VALIDATION_ERROR\<close> envelope.
\<close>

theorem empty_features_400_counterexample:
  "status_code (app demo_loader ''0.001''
      \<lparr>req_headers = Map.empty,
       req_target = POST_predict \<lparr>body_features = [], body_model_version = None\<rparr>\<rparr>) \<noteq> 400
   \<and> content (app demo_loader ''0.001''
      \<lparr>req_headers = Map.empty,
       req_target = POST_predict \<lparr>body_features = [], body_model_version = None\<rparr>\<rparr>)
       = ValidationJSON [''Features list cannot be empty'']"
  by (simp add: app_def log_requests_def exception_layer_def router_def predict_route_def
      parse_PredictionRequest_def validate_features_def json_response_def)

text \<open>
  C6, amended. The validator rejects an empty features list before the arity check,
  with the message \<open>"Features list cannot be empty"\<close> of its own. The validator runs in
  request parsing, so the response is 422 with that message in the list of failures;
  status 400 with error code \<open>VALIDATION_ERROR\<close> is what a \<open>ValueError\<close> raised by an
  endpoint gets.
\<close>

theorem empty_features_rejected_422:
  "validate_features ([] :: 'f list) = Inl ''Features list cannot be empty''
   \<and> status_code (app model_loader t
        \<lparr>req_headers = h,
         req_target = POST_predict \<lparr>body_features = ([] :: 'f list), body_model_version = mv\<rparr>\<rparr>) = 422
   \<and> content (app model_loader t
        \<lparr>req_headers = h,
         req_target = POST_predict \<lparr>body_features = ([] :: 'f list), body_model_version = mv\<rparr>\<rparr>)
       = ValidationJSON [''Features list cannot be empty'']
   \<and> (exception_layer (Inl (ValueError msg)) :: exn + 'f response)
       = Inr (json_response 400 (ErrorJSON msg ''VALIDATION_ERROR''))"
  by (simp add: app_def log_requests_def exception_layer_def router_def predict_route_def
      parse_PredictionRequest_def validate_features_def json_response_def value_error_handler_def)

theorem empty_features_rejected_422_witness:
  "status_code (app demo_loader ''0.001''
      \<lparr>req_headers = [''X-Request-ID'' \<mapsto> ''abc''],
       req_target = POST_predict \<lparr>body_features = [], body_model_version = Some (Some ''latest'')\<rparr>\<rparr>) = 422
   \<and> (exception_layer (Inl (ValueError ''bad value'')) :: exn + 64 word response)
       = Inr \<lparr>status_code = 400, content = ErrorJSON ''bad value'' ''VALIDATION_ERROR'',
              headers = Map.empty\<rparr>"
  using empty_features_rejected_422
      [where model_loader = demo_loader and t = "''0.001''" and h = "[''X-Request-ID'' \<mapsto> ''abc'']"
        and mv = "Some (Some ''latest'')" and msg = "''bad value''"]
  by (simp add: json_response_def)

text \<open>
  The part of C7 that does not depend on the clock: a response that the middleware
  lets through carries \<open>X-Request-ID\<close>, equal to the inbound header when there is one and
  to \<open>"unknown"\<close> otherwise, and carries \<open>X-Process-Time\<close>.
\<close>

lemma log_requests_headers:
  assumes "call_next request = Inr response"
  shows "\<exists>r. log_requests request process_time call_next = Inr r
       \<and> headers r ''X-Request-ID''
           = Some (case req_headers request ''X-Request-ID'' of None \<Rightarrow> ''unknown'' | Some v \<Rightarrow> v)
       \<and> headers r ''X-Process-Time'' = Some process_time"
  using assms by (simp add: log_requests_def)

text \<open>
  C8, as the specification states it, fails: on a registry that is not ready
  \<open>get_model_version\<close> returns the string \<open>"v1.0.0"\<close>, not an absent value.
\<close>

theorem get_model_version_unloaded_counterexample:
  "\<not> is_loaded (fresh_loader :: 64 word ModelLoader)
   \<and> Some (get_model_version (fresh_loader :: 64 word ModelLoader))
       \<noteq> version_spec (fresh_loader :: 64 word ModelLoader)
   \<and> get_model_version (fresh_loader :: 64 word ModelLoader) = ''v1.0.0''"
  by (simp add: is_loaded_def fresh_loader_def get_model_version_def version_spec_def)

text \<open>
  C8, amended. \<open>get_model_version\<close> returns the current version tag in every state, ready
  or not: \<open>"v1.0.0"\<close> on a fresh registry, \<open>"demo"\<close> after the demo model has been created,
  the given tag after \<open>set_model_version\<close>. It agrees with the specification's \<open>version()\<close>
  exactly when a model is ready; the absent value for a registry that is not ready is
  produced by the health endpoint, whose \<open>model_version\<close> is the specification's
  \<open>version()\<close>.
\<close>

theorem get_model_version_always_tag:
  "get_model_version fresh_loader = ''v1.0.0''
   \<and> get_model_version (set_model_version self v) = v
   \<and> get_model_version (snd (create_demo_model (Some m) self)) = ''demo''
   \<and> (is_loaded self \<longrightarrow> Some (get_model_version self) = version_spec self)
   \<and> (\<not> is_loaded self \<longrightarrow> Some (get_model_version self) \<noteq> version_spec self)
   \<and> health_model_version (health_check self) = version_spec self"
  by (simp add: get_model_version_def fresh_loader_def set_model_version_def
      create_demo_model_def version_spec_def health_check_def)

theorem get_model_version_always_tag_witness:
  "is_loaded demo_loader \<and> Some (get_model_version demo_loader) = version_spec demo_loader
   \<and> \<not> is_loaded (set_model_version fresh_loader ''v2.0.0'' :: 64 word ModelLoader)
   \<and> get_model_version (set_model_version fresh_loader ''v2.0.0'' :: 64 word ModelLoader) = ''v2.0.0''
   \<and> version_spec (set_model_version fresh_loader ''v2.0.0'' :: 64 word ModelLoader) = None"
  using get_model_version_always_tag
      [where self = "set_model_version fresh_loader ''v2.0.0'' :: 64 word ModelLoader"
        and v = "''v2.0.0''" and m = example_classifier]
    get_model_version_always_tag
      [where self = demo_loader and v = "''v2.0.0''" and m = example_classifier]
  by (simp add: is_loaded_def demo_loader_def create_demo_model_def fresh_loader_def
      set_model_version_def version_spec_def get_model_version_def)

subsection \<open>The singleton\<close>











end
